theory Spec2Isabelle
  imports Main "HOL-Library.Multiset" "HOL-Library.Sublist"
begin

section \<open>The FETS hub catalog: entity store, derivation engine, edit and create workflow\<close>

text \<open>
  A shallow embedding of \<^verbatim>\<open>src/App.tsx\<close> (the filter and grouping derivations, the
  create and update handlers) and of \<^verbatim>\<open>src/components/ProjectModal.tsx\<close> (the RBAC flags,
  the form state and \<^verbatim>\<open>handleSubmit\<close>). React state is passed explicitly; the readings of
  \<^verbatim>\<open>Date.now()\<close> are arguments of the handlers that take them.
\<close>

subsection \<open>JavaScript strings\<close>

text \<open>
  A string is a \<^typ>\<open>string\<close> (a list of 8-bit characters), so the model covers the ASCII
  range of JavaScript's strings. \<open>is_ws\<close> holds of the ASCII characters that
  \<^verbatim>\<open>String.prototype.trim\<close> removes: tab, line feed, vertical tab, form feed, carriage
  return and space.
\<close>

definition is_ws :: "char \<Rightarrow> bool" where
  "is_ws c =
     (c = CHR 0x09 \<or> c = CHR 0x0A \<or> c = CHR 0x0B \<or> c = CHR 0x0C \<or> c = CHR 0x0D \<or>
      c = CHR '' '')"

definition trim :: "string \<Rightarrow> string" where
  "trim s = rev (dropWhile is_ws (rev (dropWhile is_ws s)))"

text \<open>
  \<^verbatim>\<open>s.split(',')\<close> for a one-character separator: the segments between the separators,
  so that the empty string gives one empty segment.
\<close>

fun split :: "char \<Rightarrow> string \<Rightarrow> string list" where
  "split c [] = [[]]"
| "split c (x # xs) =
     (if x = c then [] # split c xs
      else (case split c xs of [] \<Rightarrow> [[x]] | y # ys \<Rightarrow> (x # y) # ys))"

text \<open>\<^verbatim>\<open>s.includes(k)\<close>: \<open>k\<close> occurs in \<open>s\<close> as a contiguous substring.\<close>

fun includesStr :: "string \<Rightarrow> string \<Rightarrow> bool" where
  "includesStr [] k = (k = [])"
| "includesStr (c # cs) k = (prefix k (c # cs) \<or> includesStr cs k)"

text \<open>
  \<^verbatim>\<open>s.toLowerCase()\<close> on the ASCII range: the letters \<open>A\<close> to \<open>Z\<close> move to \<open>a\<close> to \<open>z\<close>,
  every other character stays.
\<close>

definition lower_char :: "char \<Rightarrow> char" where
  "lower_char c =
     (let n = (of_char c :: nat) in if 65 \<le> n \<and> n \<le> 90 then char_of (n + 32) else c)"

definition toLowerCase :: "string \<Rightarrow> string" where
  "toLowerCase s = map lower_char s"

text \<open>\<^verbatim>\<open>n.toString()\<close> of a non-negative integer: its decimal digits.\<close>

definition digit_char :: "nat \<Rightarrow> char" where
  "digit_char d = ''0123456789'' ! d"

fun toString :: "nat \<Rightarrow> string" where
  "toString n = (if n < 10 then [digit_char n] else toString (n div 10) @ [digit_char (n mod 10)])"

declare toString.simps [simp del]

text \<open>\<^verbatim>\<open>xs.join(sep)\<close> on an array of strings.\<close>

fun join :: "string \<Rightarrow> string list \<Rightarrow> string" where
  "join sep [] = []"
| "join sep [x] = x"
| "join sep (x # y # ys) = x @ sep @ join sep (y # ys)"

text \<open>
  \<^verbatim>\<open>a || b\<close> on strings and on numbers. A missing string (\<^verbatim>\<open>undefined\<close>) and the empty
  string are falsy; a missing number (\<^verbatim>\<open>undefined\<close> or \<^verbatim>\<open>NaN\<close>) and zero are falsy.
\<close>

definition or_str :: "string option \<Rightarrow> string \<Rightarrow> string" where
  "or_str a b = (case a of None \<Rightarrow> b | Some s \<Rightarrow> if s = [] then b else s)"

definition or_num :: "int option \<Rightarrow> int \<Rightarrow> int" where
  "or_num a b = (case a of None \<Rightarrow> b | Some n \<Rightarrow> if n = 0 then b else n)"

subsection \<open>Data model\<close>

text \<open>
  \<^verbatim>\<open>types.ts\<close> is not among the sources; the types are read off their uses. The status
  enumeration has the four members the code names. \<open>Unlisted s\<close> stands for a status
  string \<open>s\<close> that is none of the four enumeration values: the grouping has a branch for it.
\<close>

datatype ProjectStatus = IDEA | IN_PROGRESS | COMPLETED | ARCHIVED | Unlisted string

datatype ItemType = App | File

datatype UserRole = ADMIN | DEVELOPER | EDITOR | VIEWER

record ChangeLogEntry =
  log_id :: string
  date :: nat
  author :: string
  reason :: string

text \<open>Optional fields of a project are options: \<open>None\<close> is JavaScript's \<^verbatim>\<open>undefined\<close>.\<close>

record Project =
  project_id :: string
  name :: string
  description :: string
  status :: ProjectStatus
  websiteUrl :: "string option"
  repoUrl :: "string option"
  imageUrl :: "string option"
  techStack :: "string list"
  files :: string
  createdAt :: int
  itemType :: ItemType
  changeHistory :: "ChangeLogEntry list option"

text \<open>The form data: \<open>techStack\<close> is the comma-separated input, not yet parsed.\<close>

record ProjectFormData =
  f_name :: string
  f_description :: string
  f_status :: ProjectStatus
  f_websiteUrl :: string
  f_repoUrl :: string
  f_imageUrl :: string
  f_techStack :: string
  f_files :: string
  f_itemType :: ItemType
  f_changeReason :: "string option"
  f_createdAt :: "int option"

record User =
  user_id :: string
  user_name :: string
  email :: string
  role :: UserRole
  avatarUrl :: string

text \<open>The part of the state of \<open>App\<close> that the handlers read and write.\<close>

record AppState =
  projects :: "Project list"
  isModalOpen :: bool
  editingProject :: "Project option"
  currentUser :: "User option"

subsection \<open>Derivation engine\<close>

text \<open>
  \<open>filteredProjects\<close> of \<^verbatim>\<open>App.tsx\<close>: first the category filter, then, when the query is
  not the empty string, the search over the whole collection, which replaces the result of
  the category filter. The category is a string; the four literals below are the ones the
  code compares it with.
\<close>

definition tag_keywords :: "string list" where
  "tag_keywords = [''React'', ''Vue'', ''Angular'', ''Svelte'', ''Next.js'', ''HTML'', ''Node'']"

definition categoryFilter :: "Project list \<Rightarrow> string \<Rightarrow> string list \<Rightarrow> Project list" where
  "categoryFilter ps activeCategory myList =
     (if activeCategory = ''Home'' then filter (\<lambda>p. itemType p = App) ps
      else if activeCategory = ''Resources'' then filter (\<lambda>p. itemType p = File) ps
      else if activeCategory = ''My List'' then filter (\<lambda>p. project_id p \<in> set myList) ps
      else if activeCategory = ''FETS Apps'' then
        filter (\<lambda>p. itemType p = App \<and>
                     list_ex (\<lambda>t. list_ex (\<lambda>k. includesStr t k) tag_keywords) (techStack p)) ps
      else ps)"

definition searchMatch :: "string \<Rightarrow> Project \<Rightarrow> bool" where
  "searchMatch lowerQuery p =
     (includesStr (toLowerCase (name p)) lowerQuery \<or>
      includesStr (toLowerCase (description p)) lowerQuery \<or>
      list_ex (\<lambda>tech. includesStr (toLowerCase tech) lowerQuery) (techStack p))"

definition filteredProjects :: "Project list \<Rightarrow> string \<Rightarrow> string \<Rightarrow> string list \<Rightarrow> Project list" where
  "filteredProjects ps activeCategory searchQuery myList =
     (let filtered = categoryFilter ps activeCategory myList in
      if searchQuery \<noteq> [] then filter (searchMatch (toLowerCase searchQuery)) ps
      else filtered)"

text \<open>
  \<open>projectsByStatus\<close>: \<open>grouped\<close> is a JavaScript object used as a dictionary from status
  strings to arrays. Its own properties are a map; the key \<^verbatim>\<open>'Other'\<close> is the status string
  \<open>Unlisted ''Other''\<close>. A property read \<^verbatim>\<open>grouped[k]\<close> gives the own property when there is
  one, else the property that every object inherits from \<^verbatim>\<open>Object.prototype\<close> under that
  name (a function or an object, so truthy, and without a \<^verbatim>\<open>push\<close> method), else
  \<^verbatim>\<open>undefined\<close>. Calling the missing \<^verbatim>\<open>push\<close> throws a \<^verbatim>\<open>TypeError\<close>.
\<close>

definition object_prototype_keys :: "string list" where
  "object_prototype_keys =
     [''constructor'', ''hasOwnProperty'', ''isPrototypeOf'', ''propertyIsEnumerable'',
      ''toLocaleString'', ''toString'', ''valueOf'', ''__proto__'',
      ''__defineGetter__'', ''__defineSetter__'', ''__lookupGetter__'', ''__lookupSetter__'']"

datatype error = TypeError

datatype property = Array "Project list" | Inherited | Undefined

type_synonym grouped = "ProjectStatus \<rightharpoonup> Project list"

definition Other :: ProjectStatus where
  "Other = Unlisted ''Other''"

fun inherited :: "ProjectStatus \<Rightarrow> bool" where
  "inherited (Unlisted s) = (s \<in> set object_prototype_keys)"
| "inherited _ = False"

definition get :: "grouped \<Rightarrow> ProjectStatus \<Rightarrow> property" where
  "get g k = (case g k of Some xs \<Rightarrow> Array xs
              | None \<Rightarrow> if inherited k then Inherited else Undefined)"

text \<open>\<^verbatim>\<open>grouped[k].push(p)\<close>.\<close>

definition push :: "grouped \<Rightarrow> ProjectStatus \<Rightarrow> Project \<Rightarrow> error + grouped" where
  "push g k p = (case get g k of Array xs \<Rightarrow> Inr (g(k \<mapsto> xs @ [p])) | _ \<Rightarrow> Inl TypeError)"

text \<open>The body of the \<^verbatim>\<open>forEach\<close> callback.\<close>

definition group_step :: "grouped \<Rightarrow> Project \<Rightarrow> error + grouped" where
  "group_step g p =
     (if get g (status p) \<noteq> Undefined then push g (status p) p
      else (let g' = (if get g Other = Undefined then g(Other \<mapsto> []) else g)
            in push g' Other p))"

fun forEach :: "grouped \<Rightarrow> Project list \<Rightarrow> error + grouped" where
  "forEach g [] = Inr g"
| "forEach g (p # ps) = (case group_step g p of Inl e \<Rightarrow> Inl e | Inr g' \<Rightarrow> forEach g' ps)"

definition initial_grouped :: grouped where
  "initial_grouped = [IN_PROGRESS \<mapsto> [], COMPLETED \<mapsto> [], IDEA \<mapsto> [], ARCHIVED \<mapsto> []]"

definition projectsByStatus :: "Project list \<Rightarrow> error + grouped" where
  "projectsByStatus filtered = forEach initial_grouped filtered"


subsection \<open>RBAC flags and form state of the modal\<close>



definition canEditMetadata :: "User option \<Rightarrow> bool" where
  "canEditMetadata u = (map_option role u \<noteq> Some VIEWER)"

text \<open>
  The form state that the effect of the modal sets when it opens: from \<open>initialData\<close> in
  edit mode, the blank form in create mode. An absent URL becomes the empty string. (The
  item type of a project is always present in this model, so the default \<^verbatim>\<open>'app'\<close> for an
  absent one does not appear.)
\<close>

definition formOfProject :: "Project \<Rightarrow> ProjectFormData" where
  "formOfProject initialData =
     \<lparr>f_name = name initialData,
      f_description = description initialData,
      f_status = status initialData,
      f_websiteUrl = or_str (websiteUrl initialData) [],
      f_repoUrl = or_str (repoUrl initialData) [],
      f_imageUrl = or_str (imageUrl initialData) [],
      f_techStack = join '', '' (techStack initialData),
      f_files = files initialData,
      f_itemType = itemType initialData,
      f_changeReason = Some [],
      f_createdAt = None\<rparr>"

definition blankForm :: ProjectFormData where
  "blankForm =
     \<lparr>f_name = [], f_description = [], f_status = IDEA, f_websiteUrl = [], f_repoUrl = [],
      f_imageUrl = [], f_techStack = [], f_files = [], f_itemType = App,
      f_changeReason = Some [], f_createdAt = None\<rparr>"

subsection \<open>Edit and create workflow\<close>

text \<open>
  \<open>handleSubmit\<close>: the two validations, each ending in an alert and an early return, then
  the normalised form data that goes to \<open>onSave\<close>. \<open>parsedDate\<close> is
  \<^verbatim>\<open>new Date(dateInput).getTime()\<close>, \<open>None\<close> when it is \<^verbatim>\<open>NaN\<close>; \<open>now\<close> is the
  reading of the clock. \<open>Inl\<close> carries the text of the alert.
\<close>

definition handleSubmit ::
  "Project option \<Rightarrow> ProjectFormData \<Rightarrow> int option \<Rightarrow> nat \<Rightarrow> string + ProjectFormData" where
  "handleSubmit initialData formData parsedDate now =
     (if trim (f_name formData) = [] then Inl ''Project/File Name is required.''
      else if initialData \<noteq> None \<and>
              (case f_changeReason formData of None \<Rightarrow> True | Some r \<Rightarrow> trim r = [])
        then Inl ''Please provide a reason for these changes to maintain the audit log.''
      else Inr (formData
             \<lparr>f_createdAt := Some (or_num parsedDate (int now)),
              f_status := (if f_itemType formData = File then COMPLETED else f_status formData)\<rparr>))"

text \<open>\<^verbatim>\<open>data.techStack.split(',').map(s => s.trim()).filter(Boolean)\<close>\<close>

definition parseTechStack :: "string \<Rightarrow> string list" where
  "parseTechStack s = filter (\<lambda>t. t \<noteq> []) (map trim (split CHR '','' s))"

text \<open>
  \<open>handleCreateProject\<close>: \<open>now_id\<close> is the clock reading that becomes the id, \<open>now_at\<close>
  the one that stands in for a missing creation date.
\<close>

definition newProject :: "nat \<Rightarrow> nat \<Rightarrow> ProjectFormData \<Rightarrow> Project" where
  "newProject now_id now_at data =
     \<lparr>project_id = toString now_id,
      name = f_name data,
      description = f_description data,
      status = f_status data,
      websiteUrl = Some (f_websiteUrl data),
      repoUrl = Some (f_repoUrl data),
      imageUrl = Some (f_imageUrl data),
      techStack = parseTechStack (f_techStack data),
      files = f_files data,
      createdAt = or_num (f_createdAt data) (int now_at),
      itemType = f_itemType data,
      changeHistory = Some []\<rparr>"

definition handleCreateProject :: "nat \<Rightarrow> nat \<Rightarrow> ProjectFormData \<Rightarrow> AppState \<Rightarrow> AppState" where
  "handleCreateProject now_id now_at data st =
     st\<lparr>projects := newProject now_id now_at data # projects st\<rparr>"

text \<open>
  \<open>handleUpdateProject\<close>: nothing happens when there is no project being edited or its id
  is the empty string; otherwise every project with that id is rewritten from the form data
  and gets the new log entry at the end of its history.
\<close>

definition newLog :: "nat \<Rightarrow> nat \<Rightarrow> ProjectFormData \<Rightarrow> User option \<Rightarrow> ChangeLogEntry" where
  "newLog now_id now_date data user =
     \<lparr>log_id = toString now_id,
      date = now_date,
      author = or_str (map_option user_name user) ''Unknown'',
      reason = or_str (f_changeReason data) ''General update''\<rparr>"

definition updated :: "ProjectFormData \<Rightarrow> ChangeLogEntry \<Rightarrow> Project \<Rightarrow> Project" where
  "updated data entry p =
     p\<lparr>name := f_name data,
       description := f_description data,
       status := f_status data,
       websiteUrl := Some (f_websiteUrl data),
       repoUrl := Some (f_repoUrl data),
       imageUrl := Some (f_imageUrl data),
       techStack := parseTechStack (f_techStack data),
       files := f_files data,
       itemType := f_itemType data,
       createdAt := or_num (f_createdAt data) (createdAt p),
       changeHistory := Some ((case changeHistory p of None \<Rightarrow> [] | Some h \<Rightarrow> h) @ [entry])\<rparr>"

definition handleUpdateProject :: "nat \<Rightarrow> nat \<Rightarrow> ProjectFormData \<Rightarrow> AppState \<Rightarrow> AppState" where
  "handleUpdateProject now_id now_date data st =
     (case editingProject st of
        None \<Rightarrow> st
      | Some ep \<Rightarrow>
          if project_id ep = [] then st
          else st\<lparr>projects :=
                 map (\<lambda>p. if project_id p = project_id ep
                          then updated data (newLog now_id now_date data (currentUser st)) p
                          else p)
                     (projects st)\<rparr>)"

text \<open>
  The two instances of the modal in \<open>App\<close>. The create modal has no \<open>initialData\<close>, saves
  with \<open>handleCreateProject\<close> and closes by clearing \<open>isModalOpen\<close>; the edit modal has the
  project being edited as \<open>initialData\<close>, saves with \<open>handleUpdateProject\<close> and closes by
  clearing \<open>editingProject\<close>. A submission returns the alert, if any, and the next state.
  \<open>now\<close> is the clock reading of \<open>handleSubmit\<close>, \<open>now_id\<close> and \<open>now_at\<close> are those of
  the save handler.
\<close>

definition submitCreate ::
  "nat \<Rightarrow> nat \<Rightarrow> nat \<Rightarrow> int option \<Rightarrow> ProjectFormData \<Rightarrow> AppState \<Rightarrow> string option \<times> AppState" where
  "submitCreate now now_id now_at parsedDate formData st =
     (case handleSubmit None formData parsedDate now of
        Inl msg \<Rightarrow> (Some msg, st)
      | Inr finalData \<Rightarrow>
          (None, (handleCreateProject now_id now_at finalData st)\<lparr>isModalOpen := False\<rparr>))"

definition submitEdit ::
  "nat \<Rightarrow> nat \<Rightarrow> nat \<Rightarrow> int option \<Rightarrow> ProjectFormData \<Rightarrow> AppState \<Rightarrow> string option \<times> AppState" where
  "submitEdit now now_id now_at parsedDate formData st =
     (case handleSubmit (editingProject st) formData parsedDate now of
        Inl msg \<Rightarrow> (Some msg, st)
      | Inr finalData \<Rightarrow>
          (None, (handleUpdateProject now_id now_at finalData st)\<lparr>editingProject := None\<rparr>))"

text \<open>The history of a project, with the absent history read as empty.\<close>

definition history :: "Project \<Rightarrow> ChangeLogEntry list" where
  "history p = (case changeHistory p of None \<Rightarrow> [] | Some h \<Rightarrow> h)"

text \<open>
  The projects that \<open>handleUpdateProject\<close> rewrites: those with the id of the project being
  edited, when that id is not the empty string.
\<close>

definition edit_target :: "AppState \<Rightarrow> Project \<Rightarrow> bool" where
  "edit_target st p =
     (case editingProject st of None \<Rightarrow> False
      | Some ep \<Rightarrow> project_id ep \<noteq> [] \<and> project_id p = project_id ep)"

text \<open>\<open>openCreateModal\<close> and \<open>openEditModal\<close> of \<open>App\<close>.\<close>

definition openCreateModal :: "AppState \<Rightarrow> AppState" where
  "openCreateModal st = st\<lparr>editingProject := None, isModalOpen := True\<rparr>"

definition openEditModal :: "Project \<Rightarrow> AppState \<Rightarrow> AppState" where
  "openEditModal project st = st\<lparr>editingProject := Some project\<rparr>"

subsection \<open>The specification's notions\<close>

text \<open>
  These definitions follow the words of the specification, to be compared with the
  definitions above, which follow the code.

  A case-insensitive substring match of \<open>q\<close> against \<open>s\<close>: \<open>q\<close>, in lower case, is a
  contiguous part of \<open>s\<close>, in lower case.
\<close>

definition caseInsensitiveMatch :: "string \<Rightarrow> string \<Rightarrow> bool" where
  "caseInsensitiveMatch s q = sublist (toLowerCase q) (toLowerCase s)"

text \<open>
  The tag-based category as the specification words it: the items of type app with a tag
  that matches some keyword of the fixed set by case-insensitive substring match.
\<close>

definition tagCategorySpec :: "Project list \<Rightarrow> Project list" where
  "tagCategorySpec ps =
     filter (\<lambda>p. itemType p = App \<and>
                  list_ex (\<lambda>t. list_ex (\<lambda>k. caseInsensitiveMatch t k) tag_keywords) (techStack p)) ps"

text \<open>
  The search as the specification words it: the items whose name, description or some tag
  matches the query by case-insensitive substring match, over the whole collection.
\<close>

definition searchSpec :: "string \<Rightarrow> Project list \<Rightarrow> Project list" where
  "searchSpec q ps =
     filter (\<lambda>p. caseInsensitiveMatch (name p) q \<or> caseInsensitiveMatch (description p) q \<or>
                  list_ex (\<lambda>t. caseInsensitiveMatch t q) (techStack p)) ps"


text \<open>The trimmed non-empty segments of a comma-separated input, in order.\<close>

definition trimmedSegments :: "string \<Rightarrow> string list" where
  "trimmedSegments s = [trim seg. seg \<leftarrow> split CHR '','' s, trim seg \<noteq> []]"




subsection \<open>Example data\<close>

text \<open>
  Two entries in the shape of the seed data of the catalog (an app and a reference
  document), the seeded editor, and a state of \<open>App\<close> holding them.
\<close>

definition ex_app :: Project where
  "ex_app =
     \<lparr>project_id = ''fets-hub'', name = ''FETS HUB'', description = ''Command center'',
      status = IN_PROGRESS, websiteUrl = Some ''https://fets.hub'', repoUrl = Some [],
      imageUrl = None, techStack = [''React'', ''Vite''], files = ''src/'',
      createdAt = 1000, itemType = App, changeHistory = None\<rparr>"

definition ex_file :: Project where
  "ex_file =
     \<lparr>project_id = ''cert-cma'', name = ''CMA USA Handbook'', description = ''Exam rules'',
      status = COMPLETED, websiteUrl = None, repoUrl = None,
      imageUrl = None, techStack = [''PDF'', ''Finance''], files = ''docs/'',
      createdAt = 900, itemType = File, changeHistory = None\<rparr>"

definition ex_editor :: User where
  "ex_editor =
     \<lparr>user_id = ''3'', user_name = ''Center Manager'', email = ''manager@fets.dev'',
      role = EDITOR, avatarUrl = []\<rparr>"


definition ex_state :: AppState where
  "ex_state =
     \<lparr>projects = [ex_app, ex_file], isModalOpen = False, editingProject = None,
      currentUser = Some ex_editor\<rparr>"

text \<open>The editor opens \<open>ex_app\<close> for editing, and the form with a reason filled in.\<close>

definition ex_editing :: AppState where
  "ex_editing = openEditModal ex_app ex_state"

definition ex_edit_form :: ProjectFormData where
  "ex_edit_form = (formOfProject ex_app)\<lparr>f_changeReason := Some ''fix''\<rparr>"

text \<open>The create form of the scenario of the specification.\<close>

definition ex_create_form :: ProjectFormData where
  "ex_create_form = blankForm\<lparr>f_name := ''X'', f_techStack := ''A, B, B''\<rparr>"

section \<open>Properties\<close>

subsection \<open>Strings\<close>

lemma includesStr_sublist: "includesStr s k = sublist k s"
  by (induction s) (simp_all add: sublist_Cons_right)


lemma trim_shape: "\<exists>l r. s = l @ trim s @ r \<and> list_all is_ws l \<and> list_all is_ws r"
proof -
  let ?l = "takeWhile is_ws s" and ?m = "dropWhile is_ws s"
  let ?r = "rev (takeWhile is_ws (rev ?m))"
  have "rev (takeWhile is_ws (rev ?m) @ dropWhile is_ws (rev ?m)) = rev (rev ?m)"
    by (simp only: takeWhile_dropWhile_id)
  then have m: "rev (dropWhile is_ws (rev ?m)) @ ?r = ?m"
    by (simp only: rev_append rev_rev_ident)
  have s: "s = ?l @ trim s @ ?r"
    by (simp only: trim_def m takeWhile_dropWhile_id)
  have l: "list_all is_ws ?l" by (auto simp: list_all_iff dest: set_takeWhileD)
  have r: "list_all is_ws ?r" by (auto simp: list_all_iff dest: set_takeWhileD)
  from s l r show ?thesis by blast
qed

lemma trim_ends: "trim s \<noteq> [] \<Longrightarrow> \<not> is_ws (hd (trim s)) \<and> \<not> is_ws (last (trim s))"
proof -
  let ?m = "dropWhile is_ws s"
  assume ne: "trim s \<noteq> []"
  then have d: "dropWhile is_ws (rev ?m) \<noteq> []" by (simp add: trim_def)
  then have l: "\<not> is_ws (hd (dropWhile is_ws (rev ?m)))" by (rule hd_dropWhile)
  have m: "?m \<noteq> []"
  proof
    assume "?m = []"
    with d show False by simp
  qed
  then have h: "\<not> is_ws (hd ?m)" by (rule hd_dropWhile)
  have "rev ?m = takeWhile is_ws (rev ?m) @ dropWhile is_ws (rev ?m)" by simp
  then have "?m = trim s @ rev (takeWhile is_ws (rev ?m))"
    unfolding trim_def by (metis rev_append rev_rev_ident)
  with ne have "hd ?m = hd (trim s)" by (metis hd_append2)
  with h have "\<not> is_ws (hd (trim s))" by simp
  moreover have "last (trim s) = hd (dropWhile is_ws (rev ?m))"
    using d by (simp add: trim_def last_rev)
  ultimately show ?thesis using l by simp
qed

lemma split_nonempty: "split c s \<noteq> []"
  by (induction s) (auto split: list.splits)

lemma split_segments: "seg \<in> set (split c s) \<Longrightarrow> c \<notin> set seg"
  by (induction s arbitrary: seg) (auto split: if_splits list.splits)

lemma join_split: "join [c] (split c s) = s"
proof (induction s)
  case Nil
  then show ?case by simp
next
  case (Cons x xs)
  obtain y ys where ys: "split c xs = y # ys"
    using split_nonempty [of c xs] by (cases "split c xs") auto
  show ?case
  proof (cases ys)
    case Nil
    with ys Cons show ?thesis by auto
  next
    case (Cons z zs)
    with ys Cons.IH show ?thesis by auto
  qed
qed

lemma parseTechStack_segments: "parseTechStack s = trimmedSegments s"
proof -
  have "filter (\<lambda>t. t \<noteq> []) (map trim xs) = [trim seg. seg \<leftarrow> xs, trim seg \<noteq> []]" for xs
    by (induction xs) simp_all
  then show ?thesis by (simp add: parseTechStack_def trimmedSegments_def)
qed

lemma digit_char_inj:
  assumes "a < 10" and "b < 10" and "digit_char a = digit_char b"
  shows "a = b"
proof -
  have "a \<in> {0,1,2,3,4,5,6,7,8,9}" "b \<in> {0,1,2,3,4,5,6,7,8,9}" using assms(1,2) by auto
  with assms(3) show ?thesis by (auto simp: digit_char_def)
qed

lemma toString_nonempty: "toString n \<noteq> []"
  by (subst toString.simps) simp

lemma toString_small: "n < 10 \<Longrightarrow> toString n = [digit_char n]"
  by (subst toString.simps) simp

lemma toString_large: "\<not> n < 10 \<Longrightarrow> toString n = toString (n div 10) @ [digit_char (n mod 10)]"
  by (subst toString.simps) simp

lemma toString_inj: "toString m = toString n \<Longrightarrow> m = n"
proof (induction m arbitrary: n rule: toString.induct)
  case (1 m)
  show ?case
  proof (cases "m < 10")
    case small_m: True
    then have m: "toString m = [digit_char m]" by (rule toString_small)
    show ?thesis
    proof (cases "n < 10")
      case True
      then have "toString n = [digit_char n]" by (rule toString_small)
      with m "1.prems" have "digit_char m = digit_char n" by simp
      with small_m True show ?thesis by (rule digit_char_inj)
    next
      case False
      then have "toString n = toString (n div 10) @ [digit_char (n mod 10)]"
        by (rule toString_large)
      with m "1.prems" toString_nonempty [of "n div 10"] show ?thesis
        by (cases "toString (n div 10)") auto
    qed
  next
    case large_m: False
    then have m: "toString m = toString (m div 10) @ [digit_char (m mod 10)]"
      by (rule toString_large)
    show ?thesis
    proof (cases "n < 10")
      case True
      then have "toString n = [digit_char n]" by (rule toString_small)
      with m "1.prems" toString_nonempty [of "m div 10"] show ?thesis
        by (cases "toString (m div 10)") auto
    next
      case False
      then have "toString n = toString (n div 10) @ [digit_char (n mod 10)]"
        by (rule toString_large)
      with m "1.prems" have eq: "toString (m div 10) = toString (n div 10)"
        and d: "digit_char (m mod 10) = digit_char (n mod 10)" by simp_all
      from "1.IH" [OF large_m eq] have "m div 10 = n div 10" .
      moreover from d have "m mod 10 = n mod 10" by (intro digit_char_inj) simp_all
      ultimately show ?thesis by (metis div_mult_mod_eq)
    qed
  qed
qed

subsection \<open>The workflow, step by step\<close>

lemma handleSubmit_Inr:
  assumes "handleSubmit initialData formData parsedDate now = Inr finalData"
  shows "finalData = formData\<lparr>f_createdAt := Some (or_num parsedDate (int now)),
              f_status := (if f_itemType formData = File then COMPLETED else f_status formData)\<rparr>"
    and "trim (f_name formData) \<noteq> []"
    and "initialData \<noteq> None \<Longrightarrow> \<exists>r. f_changeReason formData = Some r \<and> trim r \<noteq> []"
  using assms by (auto simp: handleSubmit_def split: if_splits option.splits)

lemma handleUpdateProject_projects:
  "projects (handleUpdateProject now_id now_date data st) =
     map (\<lambda>p. if edit_target st p
              then updated data (newLog now_id now_date data (currentUser st)) p else p)
         (projects st)"
  by (auto simp: handleUpdateProject_def edit_target_def split: option.splits)

lemma submitEdit_saved:
  assumes "submitEdit now now_id now_at parsedDate formData st = (None, st')"
  shows "\<exists>finalData. handleSubmit (editingProject st) formData parsedDate now = Inr finalData \<and>
           st' = (handleUpdateProject now_id now_at finalData st)\<lparr>editingProject := None\<rparr>"
  using assms by (auto simp: submitEdit_def split: sum.splits)

lemma submitCreate_saved:
  assumes "submitCreate now now_id now_at parsedDate formData st = (None, st')"
  shows "\<exists>finalData. handleSubmit None formData parsedDate now = Inr finalData \<and>
           st' = st\<lparr>projects := newProject now_id now_at finalData # projects st,
                    isModalOpen := False\<rparr>"
  using assms by (auto simp: submitCreate_def handleCreateProject_def split: sum.splits)


text \<open>The evaluation of the examples: the definitions that a concrete run unfolds.\<close>

lemmas workflow_defs =
  submitEdit_def submitCreate_def handleSubmit_def handleUpdateProject_def
  handleCreateProject_def newProject_def newLog_def updated_def parseTechStack_def
  formOfProject_def blankForm_def openEditModal_def openCreateModal_def
  trim_def is_ws_def or_str_def or_num_def history_def edit_target_def

lemmas example_defs =
  ex_app_def ex_file_def ex_editor_def ex_state_def ex_editing_def ex_edit_form_def
  ex_create_form_def

subsection \<open>Claims about the edit and create workflow\<close>



text \<open>
  Claim C6. For every save through the workflow, create or edit, a submitted item type
  \<open>file\<close> gives the saved entity the status \<open>COMPLETED\<close>, whatever status the form holds.
\<close>

theorem file_items_saved_completed:
  assumes "f_itemType formData = File"
  shows "(submitCreate now now_id now_at parsedDate formData st = (None, st') \<longrightarrow>
            (\<exists>p. projects st' = p # projects st \<and> itemType p = File \<and> status p = COMPLETED)) \<and>
         (submitEdit now now_id now_at parsedDate formData st = (None, st') \<longrightarrow>
            (\<forall>i < length (projects st). edit_target st (projects st ! i) \<longrightarrow>
               itemType (projects st' ! i) = File \<and> status (projects st' ! i) = COMPLETED))"
proof -
  have final: "f_status finalData = COMPLETED \<and> f_itemType finalData = File"
    if "handleSubmit initialData formData parsedDate now = Inr finalData" for initialData finalData
    using handleSubmit_Inr(1) [OF that] assms by simp
  have create: "\<exists>p. projects st' = p # projects st \<and> itemType p = File \<and> status p = COMPLETED"
    if "submitCreate now now_id now_at parsedDate formData st = (None, st')"
  proof -
    from submitCreate_saved [OF that] obtain finalData where
      sub: "handleSubmit None formData parsedDate now = Inr finalData" and
      st': "st' = st\<lparr>projects := newProject now_id now_at finalData # projects st,
                       isModalOpen := False\<rparr>"
      by blast
    from final [OF sub] show ?thesis by (simp add: st' newProject_def)
  qed
  have edit: "itemType (projects st' ! i) = File \<and> status (projects st' ! i) = COMPLETED"
    if "submitEdit now now_id now_at parsedDate formData st = (None, st')"
      and "i < length (projects st)" and "edit_target st (projects st ! i)" for i
  proof -
    from submitEdit_saved [OF that(1)] obtain finalData where
      sub: "handleSubmit (editingProject st) formData parsedDate now = Inr finalData" and
      st': "st' = (handleUpdateProject now_id now_at finalData st)\<lparr>editingProject := None\<rparr>"
      by blast
    from final [OF sub] that(2,3) show ?thesis
      by (simp add: st' handleUpdateProject_projects updated_def)
  qed
  from create edit show ?thesis by blast
qed

text \<open>
  The witness: the blank form, named, switched to \<open>file\<close> with the status \<open>IDEA\<close> it
  starts with, is saved as \<open>COMPLETED\<close>; the edit form of \<open>ex_app\<close> (status \<open>IN_PROGRESS\<close>),
  switched to \<open>file\<close>, is saved as \<open>COMPLETED\<close>.
\<close>

theorem file_items_saved_completed_witness:
  "f_itemType (ex_create_form\<lparr>f_itemType := File\<rparr>) = File \<and>
   f_status (ex_create_form\<lparr>f_itemType := File\<rparr>) = IDEA \<and>
   fst (submitCreate 10 11 12 None (ex_create_form\<lparr>f_itemType := File\<rparr>) ex_state) = None \<and>
   status (hd (projects (snd (submitCreate 10 11 12 None (ex_create_form\<lparr>f_itemType := File\<rparr>) ex_state))))
     = COMPLETED \<and>
   f_status (ex_edit_form\<lparr>f_itemType := File\<rparr>) = IN_PROGRESS \<and>
   fst (submitEdit 10 11 12 None (ex_edit_form\<lparr>f_itemType := File\<rparr>) ex_editing) = None \<and>
   status (projects (snd (submitEdit 10 11 12 None (ex_edit_form\<lparr>f_itemType := File\<rparr>) ex_editing)) ! 0)
     = COMPLETED"
proof -
  let ?cf = "ex_create_form\<lparr>f_itemType := File\<rparr>" and ?ef = "ex_edit_form\<lparr>f_itemType := File\<rparr>"
  let ?c = "submitCreate 10 11 12 None ?cf ex_state"
  let ?e = "submitEdit 10 11 12 None ?ef ex_editing"
  have c1: "f_itemType ?cf = File" and e1: "f_itemType ?ef = File" by simp_all
  have cs: "f_status ?cf = IDEA" by (simp add: ex_create_form_def blankForm_def)
  have es: "f_status ?ef = IN_PROGRESS"
    by (simp add: ex_edit_form_def formOfProject_def ex_app_def)
  have fc: "fst ?c = None" by (simp add: workflow_defs example_defs)
  then have c: "?c = (None, snd ?c)" by (simp add: prod_eq_iff)
  have fe: "fst ?e = None" by (simp add: workflow_defs example_defs)
  then have e: "?e = (None, snd ?e)" by (simp add: prod_eq_iff)
  have t: "edit_target ex_editing (projects ex_editing ! 0)"
    by (simp add: edit_target_def ex_editing_def openEditModal_def ex_state_def ex_app_def)
  have l: "0 < length (projects ex_editing)"
    by (simp add: ex_editing_def openEditModal_def ex_state_def)
  from file_items_saved_completed [OF c1, of 10 11 12 None ex_state "snd ?c"] c
  have "status (hd (projects (snd ?c))) = COMPLETED" by auto
  moreover from file_items_saved_completed [OF e1, of 10 11 12 None ex_editing "snd ?e"] e t l
  have "status (projects (snd ?e) ! 0) = COMPLETED" by blast
  ultimately show ?thesis using cs es fc fe by simp
qed

text \<open>
  Claim C7. A submission whose name is empty after trimming, or, when an existing entity
  is being edited, whose \<open>changeReason\<close> is missing or empty after trimming, is rejected
  with a message and nothing is saved: the state of the application (the store with every
  entity and its history, and the flags that keep the form open) is the one before.
\<close>

theorem invalid_submission_rejected:
  assumes "trim (f_name formData) = [] \<or>
           (editingProject st \<noteq> None \<and>
            (case f_changeReason formData of None \<Rightarrow> True | Some r \<Rightarrow> trim r = []))"
  shows "(\<exists>msg. msg \<noteq> [] \<and> submitEdit now now_id now_at parsedDate formData st = (Some msg, st)) \<and>
         (trim (f_name formData) = [] \<longrightarrow>
            (\<exists>msg. msg \<noteq> [] \<and> submitCreate now now_id now_at parsedDate formData st = (Some msg, st)))"
  using assms by (auto simp: submitEdit_def submitCreate_def handleSubmit_def split: option.splits)

text \<open>
  The witness: the edit form of \<open>ex_app\<close> with a reason of blanks only, and the create form
  with a name of blanks only.
\<close>

theorem invalid_submission_rejected_witness:
  "editingProject ex_editing \<noteq> None \<and> trim ''  '' = [] \<and>
   (\<exists>msg. msg \<noteq> [] \<and>
      submitEdit 10 11 12 None (ex_edit_form\<lparr>f_changeReason := Some ''  ''\<rparr>) ex_editing
        = (Some msg, ex_editing)) \<and>
   (\<exists>msg. msg \<noteq> [] \<and>
      submitCreate 10 11 12 None (ex_create_form\<lparr>f_name := ''  ''\<rparr>) (openCreateModal ex_state)
        = (Some msg, openCreateModal ex_state))"
proof -
  have t: "trim ''  '' = []" by (simp add: trim_def is_ws_def)
  have h: "editingProject ex_editing \<noteq> None" by (simp add: ex_editing_def openEditModal_def)
  have a: "trim (f_name (ex_edit_form\<lparr>f_changeReason := Some ''  ''\<rparr>)) = [] \<or>
           (editingProject ex_editing \<noteq> None \<and>
            (case f_changeReason (ex_edit_form\<lparr>f_changeReason := Some ''  ''\<rparr>) of
               None \<Rightarrow> True | Some r \<Rightarrow> trim r = []))"
    using t h by simp
  have b: "trim (f_name (ex_create_form\<lparr>f_name := ''  ''\<rparr>)) = []" using t by simp
  from invalid_submission_rejected [OF a, of 10 11 12 None]
    invalid_submission_rejected [OF disjI1 [OF b], of 10 11 12 None]
  show ?thesis using t h b by blast
qed

text \<open>
  Claim C8. For every save, the comma-separated \<open>techStack\<close> input is stored as the
  sequence of its trimmed non-empty segments, in order and with duplicates kept; no stored
  element is the empty string; and the input \<open>A, B, B\<close> is stored as \<open>A\<close>, \<open>B\<close>, \<open>B\<close>.
  (\<open>join_split\<close>, \<open>split_segments\<close>, \<open>trim_shape\<close> and \<open>trim_ends\<close> above say what the
  segments and their trimmed forms are.)
\<close>

theorem techStack_normalised:
  "(submitCreate now now_id now_at parsedDate formData st = (None, st') \<longrightarrow>
      (\<exists>p. projects st' = p # projects st \<and>
           techStack p = trimmedSegments (f_techStack formData))) \<and>
   (submitEdit now now_id now_at parsedDate formData st = (None, st') \<longrightarrow>
      (\<forall>i < length (projects st). edit_target st (projects st ! i) \<longrightarrow>
         techStack (projects st' ! i) = trimmedSegments (f_techStack formData))) \<and>
   [] \<notin> set (trimmedSegments s) \<and>
   trimmedSegments ''A, B, B'' = [''A'', ''B'', ''B'']"
proof -
  have final: "f_techStack finalData = f_techStack formData"
    if "handleSubmit initialData formData parsedDate now = Inr finalData" for initialData finalData
    using handleSubmit_Inr(1) [OF that] by simp
  have create: "\<exists>p. projects st' = p # projects st \<and>
                   techStack p = trimmedSegments (f_techStack formData)"
    if "submitCreate now now_id now_at parsedDate formData st = (None, st')"
  proof -
    from submitCreate_saved [OF that] obtain finalData where
      sub: "handleSubmit None formData parsedDate now = Inr finalData" and
      st': "st' = st\<lparr>projects := newProject now_id now_at finalData # projects st,
                       isModalOpen := False\<rparr>"
      by blast
    from final [OF sub] show ?thesis
      by (simp add: st' newProject_def parseTechStack_segments)
  qed
  have edit: "techStack (projects st' ! i) = trimmedSegments (f_techStack formData)"
    if "submitEdit now now_id now_at parsedDate formData st = (None, st')"
      and "i < length (projects st)" and "edit_target st (projects st ! i)" for i
  proof -
    from submitEdit_saved [OF that(1)] obtain finalData where
      sub: "handleSubmit (editingProject st) formData parsedDate now = Inr finalData" and
      st': "st' = (handleUpdateProject now_id now_at finalData st)\<lparr>editingProject := None\<rparr>"
      by blast
    from final [OF sub] that(2,3) show ?thesis
      by (simp add: st' handleUpdateProject_projects updated_def parseTechStack_segments)
  qed
  have nonempty: "[] \<notin> set (trimmedSegments s)"
    by (auto simp: trimmedSegments_def)
  have example: "trimmedSegments ''A, B, B'' = [''A'', ''B'', ''B'']"
    by (simp add: trimmedSegments_def trim_def is_ws_def)
  from create edit nonempty example show ?thesis by blast
qed

text \<open>
  The witness: the scenario of the specification (create an app named \<open>X\<close> with the input
  \<open>A, B, B\<close>), and an edit of \<open>ex_app\<close> with the input \<open> Vue ,, Node,\<close>.
\<close>

theorem techStack_normalised_witness:
  "fst (submitCreate 10 11 12 None ex_create_form ex_state) = None \<and>
   techStack (hd (projects (snd (submitCreate 10 11 12 None ex_create_form ex_state))))
     = [''A'', ''B'', ''B''] \<and>
   fst (submitEdit 10 11 12 None (ex_edit_form\<lparr>f_techStack := '' Vue ,, Node,''\<rparr>) ex_editing) = None \<and>
   techStack (projects (snd (submitEdit 10 11 12 None
                 (ex_edit_form\<lparr>f_techStack := '' Vue ,, Node,''\<rparr>) ex_editing)) ! 0)
     = [''Vue'', ''Node'']"
proof -
  let ?ef = "ex_edit_form\<lparr>f_techStack := '' Vue ,, Node,''\<rparr>"
  let ?c = "submitCreate 10 11 12 None ex_create_form ex_state"
  let ?e = "submitEdit 10 11 12 None ?ef ex_editing"
  have fc: "fst ?c = None" by (simp add: workflow_defs example_defs)
  then have c: "?c = (None, snd ?c)" by (simp add: prod_eq_iff)
  have fe: "fst ?e = None" by (simp add: workflow_defs example_defs)
  then have e: "?e = (None, snd ?e)" by (simp add: prod_eq_iff)
  have t: "edit_target ex_editing (projects ex_editing ! 0)"
    by (simp add: edit_target_def ex_editing_def openEditModal_def ex_state_def ex_app_def)
  have l: "0 < length (projects ex_editing)"
    by (simp add: ex_editing_def openEditModal_def ex_state_def)
  have s1: "trimmedSegments (f_techStack ex_create_form) = [''A'', ''B'', ''B'']"
    by (simp add: ex_create_form_def trimmedSegments_def trim_def is_ws_def)
  have s2: "trimmedSegments (f_techStack ?ef) = [''Vue'', ''Node'']"
    by (simp add: trimmedSegments_def trim_def is_ws_def)
  from techStack_normalised [of 10 11 12 None ex_create_form ex_state "snd ?c"] c
  obtain p where "projects (snd ?c) = p # projects ex_state"
    and "techStack p = trimmedSegments (f_techStack ex_create_form)" by blast
  then have "techStack (hd (projects (snd ?c))) = [''A'', ''B'', ''B'']" by (simp add: s1)
  moreover from techStack_normalised [of 10 11 12 None ?ef ex_editing "snd ?e"] e t l
  have "techStack (projects (snd ?e) ! 0) = [''Vue'', ''Node'']" unfolding s2 by blast
  ultimately show ?thesis using fc fe by simp
qed

text \<open>
  Claim C10. An update save leaves every project whose id differs from the id of the
  project being edited as it was, in every field; it changes no id and neither the number
  nor the order of the projects; and when no project has that id, the state, and with it
  the store, is unchanged.
\<close>

theorem update_frame:
  "length (projects (handleUpdateProject now_id now_date data st)) = length (projects st) \<and>
   (\<forall>i < length (projects st).
      project_id (projects (handleUpdateProject now_id now_date data st) ! i)
        = project_id (projects st ! i) \<and>
      (\<forall>ep. editingProject st = Some ep \<longrightarrow> project_id (projects st ! i) \<noteq> project_id ep \<longrightarrow>
         projects (handleUpdateProject now_id now_date data st) ! i = projects st ! i)) \<and>
   ((\<forall>ep. editingProject st = Some ep \<longrightarrow> project_id ep \<notin> project_id ` set (projects st)) \<longrightarrow>
      handleUpdateProject now_id now_date data st = st)"
proof -
  let ?st' = "handleUpdateProject now_id now_date data st"
  let ?f = "\<lambda>p. if edit_target st p
              then updated data (newLog now_id now_date data (currentUser st)) p else p"
  have len: "length (projects ?st') = length (projects st)"
    by (simp add: handleUpdateProject_projects)
  have ids: "project_id (projects ?st' ! i) = project_id (projects st ! i)"
    if "i < length (projects st)" for i
    using that by (simp add: handleUpdateProject_projects updated_def)
  have others: "projects ?st' ! i = projects st ! i"
    if "i < length (projects st)" and "editingProject st = Some ep"
      and "project_id (projects st ! i) \<noteq> project_id ep" for i ep
    using that by (simp add: handleUpdateProject_projects edit_target_def)
  have absent: "?st' = st"
    if a: "\<forall>ep. editingProject st = Some ep \<longrightarrow> project_id ep \<notin> project_id ` set (projects st)"
  proof -
    have no_target: "\<not> edit_target st p" if "p \<in> set (projects st)" for p
    proof (cases "editingProject st")
      case None
      then show ?thesis by (simp add: edit_target_def)
    next
      case (Some ep)
      with a have "project_id ep \<notin> project_id ` set (projects st)" by simp
      with that have "project_id p \<noteq> project_id ep" by (metis imageI)
      with Some show ?thesis by (simp add: edit_target_def)
    qed
    have "map ?f (projects st) = projects st"
      by (intro map_idI) (simp add: no_target)
    then have "projects ?st' = projects st"
      by (simp add: handleUpdateProject_projects)
    moreover have "?st' = st\<lparr>projects := projects ?st'\<rparr>"
      by (simp add: handleUpdateProject_def split: option.splits)
    ultimately show ?thesis by simp
  qed
  from len ids others absent show ?thesis by blast
qed

text \<open>
  The witness: while \<open>ex_app\<close> is being edited, the update rewrites it and keeps its id,
  and leaves \<open>ex_file\<close> as it was; while a project that is not in the store is being edited,
  the update changes nothing.
\<close>

theorem update_frame_witness:
  "editingProject ex_editing = Some ex_app \<and>
   project_id (projects ex_editing ! 1) \<noteq> project_id ex_app \<and>
   projects (handleUpdateProject 11 12 ex_edit_form ex_editing) ! 1 = projects ex_editing ! 1 \<and>
   project_id (projects (handleUpdateProject 11 12 ex_edit_form ex_editing) ! 0) = project_id ex_app \<and>
   projects (handleUpdateProject 11 12 ex_edit_form ex_editing) ! 0 \<noteq> projects ex_editing ! 0 \<and>
   handleUpdateProject 11 12 ex_edit_form (openEditModal (ex_app\<lparr>project_id := ''gone''\<rparr>) ex_state)
     = openEditModal (ex_app\<lparr>project_id := ''gone''\<rparr>) ex_state"
proof -
  let ?st' = "handleUpdateProject 11 12 ex_edit_form ex_editing"
  let ?g = "openEditModal (ex_app\<lparr>project_id := ''gone''\<rparr>) ex_state"
  have h1: "editingProject ex_editing = Some ex_app"
    by (simp add: ex_editing_def openEditModal_def)
  have ps: "projects ex_editing = [ex_app, ex_file]"
    by (simp add: ex_editing_def openEditModal_def ex_state_def)
  have h2: "project_id (projects ex_editing ! 1) \<noteq> project_id ex_app"
    by (simp add: ps ex_app_def ex_file_def)
  have changed: "projects ?st' ! 0 \<noteq> projects ex_editing ! 0"
  proof
    assume "projects ?st' ! 0 = projects ex_editing ! 0"
    then have "changeHistory (projects ?st' ! 0) = changeHistory (projects ex_editing ! 0)"
      by simp
    then show False
      by (simp add: handleUpdateProject_projects ps edit_target_def h1 updated_def ex_app_def)
  qed
  have gone: "\<forall>ep. editingProject ?g = Some ep \<longrightarrow> project_id ep \<notin> project_id ` set (projects ?g)"
    by (simp add: openEditModal_def ex_state_def ex_app_def ex_file_def)
  from update_frame [of 11 12 ex_edit_form ex_editing] update_frame [of 11 12 ex_edit_form ?g]
  show ?thesis using h1 h2 changed gone by (simp add: ps)
qed

subsection \<open>Claims about the derivation engine\<close>

lemma toLowerCase_eval:
  "toLowerCase [] = []"
  "toLowerCase (c # cs) = lower_char c # toLowerCase cs"
  by (simp_all add: toLowerCase_def)

lemma searchMatch_fun:
  "searchMatch lowerQuery =
     (\<lambda>p. includesStr (toLowerCase (name p)) lowerQuery \<or>
          includesStr (toLowerCase (description p)) lowerQuery \<or>
          list_ex (\<lambda>tech. includesStr (toLowerCase tech) lowerQuery) (techStack p))"
  by (rule ext) (simp add: searchMatch_def)

lemmas filter_defs =
  filteredProjects_def categoryFilter_def searchMatch_fun tag_keywords_def
  lower_char_def char_of_eq_iff

text \<open>
  Claim C4. For a non-empty search query the filtered result depends on the items and the
  query only: it is the same for any two active categories and any two lists of the user,
  and it is the sequence of the items of the whole collection whose name, description or
  some tag matches the query by case-insensitive substring match.
\<close>

theorem search_ignores_category:
  assumes "searchQuery \<noteq> []"
  shows "filteredProjects ps activeCategory searchQuery myList = searchSpec searchQuery ps \<and>
         filteredProjects ps activeCategory searchQuery myList
           = filteredProjects ps activeCategory' searchQuery myList'"
  using assms
  by (simp add: filteredProjects_def searchSpec_def searchMatch_fun caseInsensitiveMatch_def
      includesStr_sublist)

text \<open>
  The witness: the query \<open>REACT\<close> finds \<open>ex_app\<close> (by its tag \<open>React\<close>) under the category
  \<open>Resources\<close>, which without a query shows \<open>ex_file\<close> only.
\<close>

theorem search_ignores_category_witness:
  "''REACT'' \<noteq> [] \<and>
   filteredProjects [ex_app, ex_file] ''Resources'' ''REACT'' [] = [ex_app] \<and>
   filteredProjects [ex_app, ex_file] ''My List'' ''REACT'' [''cert-cma''] = [ex_app] \<and>
   searchSpec ''REACT'' [ex_app, ex_file] = [ex_app] \<and>
   filteredProjects [ex_app, ex_file] ''Resources'' [] [] = [ex_file]"
proof -
  have q: "''REACT'' \<noteq> []" by simp
  have r: "filteredProjects [ex_app, ex_file] ''Resources'' ''REACT'' [] = [ex_app]"
    by (simp add: filter_defs toLowerCase_eval ex_app_def ex_file_def)
  have n: "filteredProjects [ex_app, ex_file] ''Resources'' [] [] = [ex_file]"
    by (simp add: filter_defs ex_app_def ex_file_def)
  note t = search_ignores_category [OF q, of "[ex_app, ex_file]" "''Resources''" "[]"
      "''My List''" "[''cert-cma'']"]
  from t have t1: "filteredProjects [ex_app, ex_file] ''Resources'' ''REACT'' []
      = searchSpec ''REACT'' [ex_app, ex_file]" by (rule conjunct1)
  from t have t2: "filteredProjects [ex_app, ex_file] ''Resources'' ''REACT'' []
      = filteredProjects [ex_app, ex_file] ''My List'' ''REACT'' [''cert-cma'']" by (rule conjunct2)
  have s: "searchSpec ''REACT'' [ex_app, ex_file] = [ex_app]" using r unfolding t1 .
  have m: "filteredProjects [ex_app, ex_file] ''My List'' ''REACT'' [''cert-cma''] = [ex_app]"
    using r unfolding t2 .
  from q r m s n show ?thesis by simp
qed

text \<open>
  Claim C3, as the specification states it, fails: the category \<open>FETS Apps\<close> compares tags
  and keywords as they are written. An app whose only tag is \<open>react\<close> matches the keyword
  \<open>React\<close> without regard to case, and the code leaves it out.
\<close>

theorem tag_category_case_counterexample:
  "filteredProjects [ex_app\<lparr>techStack := [''react'']\<rparr>] ''FETS Apps'' [] [] = [] \<and>
   tagCategorySpec [ex_app\<lparr>techStack := [''react'']\<rparr>] = [ex_app\<lparr>techStack := [''react'']\<rparr>]"
  by (simp add: filter_defs tagCategorySpec_def caseInsensitiveMatch_def toLowerCase_eval
      ex_app_def flip: includesStr_sublist)

text \<open>
  Claim C3, amended. With the empty search query, the category \<open>FETS Apps\<close> yields exactly
  the items of type app with a tag that contains some keyword of the fixed set as a
  contiguous substring, letter case included; a category that is none of the four
  recognised ones yields the items unfiltered.
\<close>

theorem tag_category_filter:
  "filteredProjects ps ''FETS Apps'' [] myList =
     filter (\<lambda>p. itemType p = App \<and>
                  (\<exists>t \<in> set (techStack p). \<exists>k \<in> set tag_keywords. sublist k t)) ps \<and>
   (c \<notin> {''Home'', ''Resources'', ''My List'', ''FETS Apps''} \<longrightarrow>
      filteredProjects ps c [] myList = ps)"
  by (simp add: filteredProjects_def categoryFilter_def list_ex_iff includesStr_sublist)

text \<open>
  The witness: of an app tagged \<open>React\<close>, a file and an app tagged \<open>react\<close>, the category
  keeps the first; the category \<open>SOP\<close> keeps all three.
\<close>

theorem tag_category_filter_witness:
  "''SOP'' \<notin> {''Home'', ''Resources'', ''My List'', ''FETS Apps''} \<and>
   filteredProjects [ex_app, ex_file, ex_app\<lparr>techStack := [''react'']\<rparr>] ''SOP'' [] []
     = [ex_app, ex_file, ex_app\<lparr>techStack := [''react'']\<rparr>] \<and>
   filteredProjects [ex_app, ex_file, ex_app\<lparr>techStack := [''react'']\<rparr>] ''FETS Apps'' [] []
     = [ex_app]"
proof -
  let ?ps = "[ex_app, ex_file, ex_app\<lparr>techStack := [''react'']\<rparr>]"
  have h: "''SOP'' \<notin> {''Home'', ''Resources'', ''My List'', ''FETS Apps''}" by simp
  have e: "filter (\<lambda>p. itemType p = App \<and>
                  (\<exists>t \<in> set (techStack p). \<exists>k \<in> set tag_keywords. sublist k t)) ?ps = [ex_app]"
    by (simp add: tag_keywords_def ex_app_def ex_file_def flip: includesStr_sublist)
  from tag_category_filter [of ?ps "[]" "''SOP''"] h e show ?thesis by simp
qed

subsection \<open>The role of the user and the save path\<close>






subsection \<open>Identifiers of created projects\<close>

text \<open>
  Claim C2, as the specification states it, fails: the id of a new project is the decimal
  rendering of the clock reading, so two saves of the same create form that read the same
  millisecond give two entities with one id.
\<close>

theorem create_twice_same_clock_counterexample:
  "map project_id (projects (snd (submitCreate 1762140000000 1762140000000 1762140000000 None
       ex_create_form (openCreateModal (snd (submitCreate 1762140000000 1762140000000 1762140000000
          None ex_create_form (openCreateModal ex_state)))))))
     = [''1762140000000'', ''1762140000000'', ''fets-hub'', ''cert-cma''] \<and>
   \<not> distinct (map project_id (projects (snd (submitCreate 1762140000000 1762140000000
       1762140000000 None ex_create_form (openCreateModal (snd (submitCreate 1762140000000
          1762140000000 1762140000000 None ex_create_form (openCreateModal ex_state))))))))"
  by (simp add: workflow_defs example_defs toString.simps digit_char_def)

text \<open>
  Claim C2, amended. Saving the create form twice with identical input puts two entities
  at the front of the store, the later one first, whatever the store holds and whatever
  the clock reads (nothing is deduplicated). Their ids are the decimal renderings of the
  two clock readings taken for them, so they are distinct exactly when the readings
  differ. The ids of the store are unique after the first create exactly when they were
  unique before and the first rendering was not among them, and after the second exactly
  when, in addition, the second rendering was not among them and the readings differ.
\<close>

theorem create_twice_distinct_ids:
  assumes "submitCreate n1 t1 a1 parsedDate formData st = (None, st1)"
    and "submitCreate n2 t2 a2 parsedDate formData (openCreateModal st1) = (None, st2)"
  shows "\<exists>p1 p2. projects st1 = p1 # projects st \<and> projects st2 = p2 # p1 # projects st \<and>
           project_id p1 = toString t1 \<and> project_id p2 = toString t2 \<and>
           (project_id p1 \<noteq> project_id p2) = (t1 \<noteq> t2) \<and>
           distinct (map project_id (projects st1))
             = (distinct (map project_id (projects st)) \<and>
                toString t1 \<notin> project_id ` set (projects st)) \<and>
           distinct (map project_id (projects st2))
             = (distinct (map project_id (projects st)) \<and>
                toString t1 \<notin> project_id ` set (projects st) \<and>
                toString t2 \<notin> project_id ` set (projects st) \<and> t1 \<noteq> t2)"
proof -
  from submitCreate_saved [OF assms(1)] obtain d1 where
    st1: "st1 = st\<lparr>projects := newProject t1 a1 d1 # projects st, isModalOpen := False\<rparr>"
    by blast
  from submitCreate_saved [OF assms(2)] obtain d2 where
    st2: "st2 = (openCreateModal st1)\<lparr>projects :=
            newProject t2 a2 d2 # projects (openCreateModal st1), isModalOpen := False\<rparr>"
    by blast
  let ?p1 = "newProject t1 a1 d1" and ?p2 = "newProject t2 a2 d2"
  have id1: "project_id ?p1 = toString t1" and id2: "project_id ?p2 = toString t2"
    by (simp_all add: newProject_def)
  have ne: "(toString t1 \<noteq> toString t2) = (t1 \<noteq> t2)"
    using toString_inj by blast
  have ps1: "projects st1 = ?p1 # projects st" by (simp add: st1)
  have ps2: "projects st2 = ?p2 # ?p1 # projects st"
    by (simp add: st2 st1 openCreateModal_def)
  have ids: "(project_id ?p1 \<noteq> project_id ?p2) = (t1 \<noteq> t2)"
    by (simp add: id1 id2 ne)
  have d1: "distinct (map project_id (projects st1))
      = (distinct (map project_id (projects st)) \<and> toString t1 \<notin> project_id ` set (projects st))"
    by (auto simp: ps1 id1)
  have d2: "distinct (map project_id (projects st2))
      = (distinct (map project_id (projects st)) \<and>
         toString t1 \<notin> project_id ` set (projects st) \<and>
         toString t2 \<notin> project_id ` set (projects st) \<and> t1 \<noteq> t2)"
    using ne by (auto simp: ps2 id1 id2)
  from ps1 ps2 id1 id2 ids d1 d2 show ?thesis by blast
qed

text \<open>
  The witness: two saves of the create form of the scenario, one millisecond apart, on the
  example store.
\<close>

theorem create_twice_distinct_ids_witness:
  "fst (submitCreate 1762140000000 1762140000000 1762140000000 None ex_create_form ex_state) = None \<and>
   fst (submitCreate 1762140000001 1762140000001 1762140000001 None ex_create_form
          (openCreateModal (snd (submitCreate 1762140000000 1762140000000 1762140000000
             None ex_create_form ex_state)))) = None \<and>
   map project_id (projects (snd (submitCreate 1762140000001 1762140000001 1762140000001 None
       ex_create_form (openCreateModal (snd (submitCreate 1762140000000 1762140000000 1762140000000
          None ex_create_form ex_state))))))
     = [''1762140000001'', ''1762140000000'', ''fets-hub'', ''cert-cma''] \<and>
   distinct (map project_id (projects (snd (submitCreate 1762140000001 1762140000001
       1762140000001 None ex_create_form (openCreateModal (snd (submitCreate 1762140000000
          1762140000000 1762140000000 None ex_create_form ex_state)))))))"
proof -
  let ?a = "submitCreate 1762140000000 1762140000000 1762140000000 None ex_create_form ex_state"
  let ?b = "submitCreate 1762140000001 1762140000001 1762140000001 None ex_create_form
              (openCreateModal (snd ?a))"
  have s0: "toString 1762140000000 = ''1762140000000''"
    by (simp add: toString.simps digit_char_def)
  have s1: "toString 1762140000001 = ''1762140000001''"
    by (simp add: toString.simps digit_char_def)
  have ps: "map project_id (projects ex_state) = [''fets-hub'', ''cert-cma'']"
    by (simp add: example_defs)
  have h1: "distinct (map project_id (projects ex_state))" by (simp add: ps)
  have h2: "toString 1762140000000 \<notin> project_id ` set (projects ex_state)"
    unfolding s0 by (simp add: example_defs)
  have h3: "toString 1762140000001 \<notin> project_id ` set (projects ex_state)"
    unfolding s1 by (simp add: example_defs)
  have h4: "(1762140000000 :: nat) \<noteq> 1762140000001" by simp
  have fa: "fst ?a = None" by (simp add: workflow_defs example_defs)
  then have h5: "?a = (None, snd ?a)" by (simp add: prod_eq_iff)
  have fb: "fst ?b = None"
    by (simp add: submitCreate_def handleSubmit_def ex_create_form_def blankForm_def trim_def
        is_ws_def)
  then have h6: "?b = (None, snd ?b)" by (simp add: prod_eq_iff)
  from create_twice_distinct_ids [OF h5 h6] obtain p1 p2 where
    r: "projects (snd ?b) = p2 # p1 # projects ex_state"
       "project_id p1 = toString 1762140000000" "project_id p2 = toString 1762140000001"
       "distinct (map project_id (projects (snd ?b)))
          = (distinct (map project_id (projects ex_state)) \<and>
             toString 1762140000000 \<notin> project_id ` set (projects ex_state) \<and>
             toString 1762140000001 \<notin> project_id ` set (projects ex_state) \<and>
             (1762140000000 :: nat) \<noteq> 1762140000001)"
    by blast
  from r(1,2,3) have m: "map project_id (projects (snd ?b))
      = [''1762140000001'', ''1762140000000'', ''fets-hub'', ''cert-cma'']"
    by (simp add: s0 s1 ps)
  from r(4) h1 h2 h3 h4 have d: "distinct (map project_id (projects (snd ?b)))" by blast
  from fa fb m d show ?thesis by blast
qed

subsection \<open>Grouping by status\<close>












text \<open>
  Every status of the enumeration passes the test on inherited names.
\<close>

lemma enumeration_not_inherited:
  "k \<in> {IDEA, IN_PROGRESS, COMPLETED, ARCHIVED} \<Longrightarrow> \<not> inherited k"
  by auto

text \<open>
  The hypothesis of the theorem below cannot be dropped in this model: \<open>grouped\<close> is a
  plain object, so a status string that names a property inherited from
  \<^verbatim>\<open>Object.prototype\<close> finds that property instead of a bucket, and the call of its missing
  \<^verbatim>\<open>push\<close> throws. No path of the program produces such a status: the seed data, the
  options of the status select and the status forced by \<open>handleSubmit\<close> are members of the
  enumeration.
\<close>

lemma grouping_inherited_key_throws:
  "projectsByStatus [ex_file, ex_app\<lparr>status := Unlisted ''constructor''\<rparr>] = Inl TypeError"
  by (simp add: projectsByStatus_def initial_grouped_def group_step_def push_def get_def
      object_prototype_keys_def ex_app_def ex_file_def)



end
